theory Spec2Isabelle
  imports Main "HOL-Library.AList"
begin

section \<open>Data model\<close>

text \<open>
  The embedded node of \<^verbatim>\<open>main.go\<close>. A Go \<^verbatim>\<open>error\<close> is modelled by its message,
  a \<^verbatim>\<open>peer.ID\<close> and a \<^verbatim>\<open>ma.Multiaddr\<close> by their textual forms. The struct
  \<^verbatim>\<open>peer.AddrInfo\<close> keeps its two fields.
\<close>

type_synonym error = string
type_synonym peer_ID = string
type_synonym Multiaddr = string

record AddrInfo =
  ID :: peer_ID
  Addrs :: "Multiaddr list"

text \<open>
  The two library calls of the parsing loop are parameters of the model: \<^verbatim>\<open>ma.NewMultiaddr\<close>
  and \<^verbatim>\<open>peer.AddrInfoFromP2pAddr\<close>, each returning a value or an error.
\<close>

record addr_lib =
  NewMultiaddr :: "string \<Rightarrow> error + Multiaddr"
  AddrInfoFromP2pAddr :: "Multiaddr \<Rightarrow> error + AddrInfo"

text \<open>
  A file or directory handed around by the node (\<^verbatim>\<open>files.Node\<close>), and the resolved path
  returned by \<^verbatim>\<open>Unixfs().Add\<close>.
\<close>

datatype Node = File string | Directory "(string \<times> Node) list"

record Resolved =
  Cid :: string

text \<open>
  The part of \<^verbatim>\<open>icore.CoreAPI\<close> that the program calls, as responses of the node: a dial
  answers with an error or with none, \<^verbatim>\<open>Unixfs().Get\<close> with the content or an error, and
  \<^verbatim>\<open>Unixfs().Add\<close> with the resolved path or an error. \<^verbatim>\<open>icorepath.New\<close> builds the path
  from the CID text.
\<close>

record CoreAPI =
  Swarm_Connect :: "AddrInfo \<Rightarrow> error option"
  path_New :: "string \<Rightarrow> string"
  Unixfs_Get :: "string \<Rightarrow> error + Node"
  Unixfs_Add :: "Node \<Rightarrow> error + Resolved"

section \<open>Peer connector\<close>

text \<open>
  One address string goes through both library calls; the first error wins
  (lines 129 to 136).
\<close>

definition parse_addr :: "addr_lib \<Rightarrow> string \<Rightarrow> error + AddrInfo" where
  "parse_addr L addrStr =
     (case NewMultiaddr L addrStr of
        Inl e \<Rightarrow> Inl e
      | Inr addr \<Rightarrow> AddrInfoFromP2pAddr L addr)"

text \<open>
  The body of the parsing loop after both calls succeeded (lines 137 to 142). The Go map
  \<^verbatim>\<open>peerInfos\<close> holds pointers, so appending to \<^verbatim>\<open>pi.Addrs\<close> changes the entry stored under
  \<^verbatim>\<open>pii.ID\<close>; the model stores the updated entry. The map is an association list, keys in
  order of first insertion.
\<close>

definition merge_peer :: "(peer_ID \<times> AddrInfo) list \<Rightarrow> AddrInfo \<Rightarrow> (peer_ID \<times> AddrInfo) list" where
  "merge_peer peerInfos pii =
     (let pi = (case map_of peerInfos (ID pii) of
                  None \<Rightarrow> \<lparr>ID = ID pii, Addrs = []\<rparr>
                | Some pi \<Rightarrow> pi)
      in AList.update (ID pii) (pi\<lparr>Addrs := Addrs pi @ Addrs pii\<rparr>) peerInfos)"

text \<open>The parsing loop (lines 128 to 143): it returns at the first address that fails.\<close>

fun collect_peers ::
  "addr_lib \<Rightarrow> string list \<Rightarrow> (peer_ID \<times> AddrInfo) list \<Rightarrow> error + (peer_ID \<times> AddrInfo) list" where
  "collect_peers L [] peerInfos = Inr peerInfos"
| "collect_peers L (addrStr # rest) peerInfos =
     (case parse_addr L addrStr of
        Inl e \<Rightarrow> Inl e
      | Inr pii \<Rightarrow> collect_peers L rest (merge_peer peerInfos pii))"

text \<open>
  The dial loop (lines 145 to 155): one \<^verbatim>\<open>Connect\<close> per entry of the map; a failure is
  logged and nothing else. The result lists the dial attempts and the log lines. The
  goroutines run concurrently and Go fixes no iteration order for a map: the two lists
  are in the order of one schedule, that of first insertion into the map, and the
  statements about which peers are dialed and how often do not depend on it.
\<close>

definition dial_msg :: "AddrInfo \<Rightarrow> error \<Rightarrow> string" where
  "dial_msg peerInfo e = ''failed to connect to '' @ ID peerInfo @ '': '' @ e"

fun dial_all :: "CoreAPI \<Rightarrow> AddrInfo list \<Rightarrow> AddrInfo list \<times> string list" where
  "dial_all ipfs [] = ([], [])"
| "dial_all ipfs (peerInfo # rest) =
     (let (ds, ls) = dial_all ipfs rest
      in (peerInfo # ds,
          (case Swarm_Connect ipfs peerInfo of
             None \<Rightarrow> ls
           | Some e \<Rightarrow> dial_msg peerInfo e # ls)))"

record connect_result =
  returned :: "error option"
  dialed :: "AddrInfo list"
  logged :: "string list"

definition connectToPeers :: "addr_lib \<Rightarrow> CoreAPI \<Rightarrow> string list \<Rightarrow> connect_result" where
  "connectToPeers L ipfs peers =
     (case collect_peers L peers [] of
        Inl e \<Rightarrow> \<lparr>returned = Some e, dialed = [], logged = []\<rparr>
      | Inr peerInfos \<Rightarrow>
          (let (ds, ls) = dial_all ipfs (map snd peerInfos)
           in \<lparr>returned = None, dialed = ds, logged = ls\<rparr>))"

section \<open>Content resolver and persistence writer\<close>

text \<open>
  The functions below call \<^verbatim>\<open>panic\<close> where the library reports an error; their Go
  result types carry no error. The model returns the value or the panic message.
\<close>

datatype 'a outcome = Returned 'a | Panicked error

text \<open>\<^verbatim>\<open>add\<close> (lines 281 to 291).\<close>

definition add :: "CoreAPI \<Rightarrow> Node \<Rightarrow> Resolved outcome" where
  "add ipfs file =
     (case Unixfs_Add ipfs file of
        Inl e \<Rightarrow> Panicked (''failed to add content: '' @ e)
      | Inr content \<Rightarrow> Returned content)"

text \<open>\<^verbatim>\<open>get\<close> (lines 320 to 331).\<close>

definition get :: "CoreAPI \<Rightarrow> string \<Rightarrow> Node outcome" where
  "get ipfs cid =
     (let path = path_New ipfs cid
      in case Unixfs_Get ipfs path of
           Inl e \<Rightarrow> Panicked (''could not get contents of CID: '' @ e)
         | Inr content \<Rightarrow> Returned content)"

text \<open>
  \<^verbatim>\<open>fetch\<close> (lines 294 to 317). The goroutine of lines 298 to 303 calls the peer connector
  with the local list \<^verbatim>\<open>bootstrapNodes\<close>; the result records what that call dials and logs
  whenever it runs, next to the outcome of \<^verbatim>\<open>fetch\<close> itself.
\<close>

record fetch_result =
  fetched :: "Resolved outcome"
  bg_dialed :: "AddrInfo list"
  bg_logged :: "string list"

definition fetch :: "addr_lib \<Rightarrow> CoreAPI \<Rightarrow> string \<Rightarrow> fetch_result" where
  "fetch L ipfs cid =
     (let bootstrapNodes = [];
          bg = connectToPeers L ipfs bootstrapNodes;
          path = path_New ipfs cid
      in \<lparr>fetched =
            (case Unixfs_Get ipfs path of
               Inl e \<Rightarrow> Panicked (''could not get contents of CID: '' @ e)
             | Inr content \<Rightarrow> add ipfs content),
          bg_dialed = dialed bg,
          bg_logged = logged bg @
            (case returned bg of
               None \<Rightarrow> []
             | Some e \<Rightarrow> [''failed connect to peers: '' @ e])\<rparr>)"

text \<open>
  \<^verbatim>\<open>save\<close> (lines 173 to 185). \<^verbatim>\<open>files.WriteTo\<close> is a parameter: it takes the content, the
  path and the disk, and gives back an error or none together with the disk it left.
\<close>

definition save ::
  "(Node \<Rightarrow> string \<Rightarrow> 'disk \<Rightarrow> error option \<times> 'disk) \<Rightarrow>
   string \<Rightarrow> Node \<Rightarrow> string \<Rightarrow> 'disk \<Rightarrow> string outcome \<times> 'disk" where
  "save files_WriteTo dir content cid d =
     (let path = dir @ cid
      in case files_WriteTo content path d of
           (Some e, d') \<Rightarrow>
             (Panicked (''could not write the fetched file to the temporary directory: '' @ e), d')
         | (None, d') \<Rightarrow> (Returned path, d'))"

section \<open>Repository manager\<close>

text \<open>
  The configuration of \<^verbatim>\<open>go-ipfs-config\<close>, reduced to the identity generated by
  \<^verbatim>\<open>config.Init\<close> and the six experimental switches that \<^verbatim>\<open>createRepo\<close> assigns.
\<close>

record Experiments =
  FilestoreEnabled :: bool
  UrlstoreEnabled :: bool
  ShardingEnabled :: bool
  Libp2pStreamMounting :: bool
  P2pHttpProxy :: bool
  StrategicProviding :: bool

record Config =
  Identity :: string
  Experimental :: Experiments

text \<open>
  The repository location on disk: absent, or a directory that holds the configuration of
  an initialised repository or none yet.
\<close>

datatype repo_dir = Absent | Dir "Config option"

text \<open>
  \<^verbatim>\<open>os.Mkdir\<close> fails with \<^verbatim>\<open>EEXIST\<close> when the path exists, and otherwise with whatever
  fault the system has for it (no permission, no parent, no space, read-only file system).
\<close>

datatype mkdir_fault = EACCES | ENOENT | ENOSPC | EROFS

datatype mkdir_error = EEXIST | Fault mkdir_fault

record repo_env =
  mkdir_fault :: "mkdir_fault option"
  config_Init :: "nat \<Rightarrow> error + Config"
  fsrepo_Init_fault :: "error option"

definition os_Mkdir :: "repo_env \<Rightarrow> repo_dir \<Rightarrow> mkdir_error option \<times> repo_dir" where
  "os_Mkdir E d =
     (case d of
        Dir c \<Rightarrow> (Some EEXIST, d)
      | Absent \<Rightarrow>
          (case mkdir_fault E of
             Some f \<Rightarrow> (Some (Fault f), Absent)
           | None \<Rightarrow> (None, Dir None)))"

text \<open>
  \<^verbatim>\<open>fsrepo.Init\<close> leaves an initialised repository alone and otherwise writes the given
  configuration, unless the write fails.
\<close>

definition fsrepo_Init :: "repo_env \<Rightarrow> Config \<Rightarrow> repo_dir \<Rightarrow> error option \<times> repo_dir" where
  "fsrepo_Init E cfg d =
     (case d of
        Dir (Some c) \<Rightarrow> (None, d)
      | _ \<Rightarrow>
          (case fsrepo_Init_fault E of
             Some e \<Rightarrow> (Some e, d)
           | None \<Rightarrow> (None, Dir (Some cfg))))"

text \<open>
  The calls and prints of \<^verbatim>\<open>createRepo\<close>, in order, are part of its result, with the
  returned pair and the disk it leaves.
\<close>

datatype call =
  Mkdir string nat
| ConfigInit nat
| FsrepoInit string Config
| Print string

record repo_result =
  ret_path :: string
  ret_err :: "error option"
  calls :: "call list"
  disk :: repo_dir

text \<open>
  \<^verbatim>\<open>createRepo\<close> (lines 190 to 228); \<^verbatim>\<open>flagExp\<close> is the value of the command-line flag
  \<^verbatim>\<open>experimental\<close> (line 187). The permissions \<^verbatim>\<open>0777\<close> are 511.
\<close>

definition createRepo :: "repo_env \<Rightarrow> bool \<Rightarrow> repo_dir \<Rightarrow> repo_result" where
  "createRepo E flagExp d =
     (let dirPermissions = 511;
          repoPath = ''/tmp/embedded-ipfs''
      in case os_Mkdir E d of
           (None, d1) \<Rightarrow>
             (let started =
                [Mkdir repoPath dirPermissions,
                 Print (''creating repo directory '' @ repoPath @ '' with permissions 0777\<newline>''),
                 ConfigInit 2048]
              in case config_Init E 2048 of
                   Inl e \<Rightarrow>
                     \<lparr>ret_path = [], ret_err = Some e, calls = started, disk = d1\<rparr>
                 | Inr cfg0 \<Rightarrow>
                     (let cfg =
                        (if flagExp
                         then cfg0\<lparr>Experimental := (Experimental cfg0)
                                \<lparr>FilestoreEnabled := True,
                                 UrlstoreEnabled := True,
                                 ShardingEnabled := True,
                                 Libp2pStreamMounting := True,
                                 P2pHttpProxy := True,
                                 StrategicProviding := True\<rparr>\<rparr>
                         else cfg0)
                      in case fsrepo_Init E cfg d1 of
                           (Some e, d2) \<Rightarrow>
                             \<lparr>ret_path = [],
                              ret_err = Some (''failed to init ephemeral node: '' @ e),
                              calls = started @ [FsrepoInit repoPath cfg], disk = d2\<rparr>
                         | (None, d2) \<Rightarrow>
                             \<lparr>ret_path = repoPath, ret_err = None,
                              calls = started @ [FsrepoInit repoPath cfg], disk = d2\<rparr>))
         | (Some e, d1) \<Rightarrow>
             \<lparr>ret_path = repoPath, ret_err = None,
              calls = [Mkdir repoPath dirPermissions, Print ''repo already exists\<newline>''],
              disk = d1\<rparr>)"

section \<open>Concrete environments\<close>

text \<open>
  Stand-ins for the libraries and the node, used to run the model on concrete inputs. The
  address library knows three addresses, two of them of the peer \<open>QmA\<close>; the node
  refuses the dial of \<open>QmB\<close> and holds one piece of content.
\<close>

definition sample_lib :: addr_lib where
  "sample_lib =
     \<lparr>NewMultiaddr =
        (\<lambda>s. if take 1 s = ''/'' then Inr s else Inl ''failed to parse multiaddr''),
      AddrInfoFromP2pAddr =
        (\<lambda>a. case map_of
             [(''/ip4/10.0.0.1/tcp/4001/p2p/QmA'',
                 \<lparr>ID = ''QmA'', Addrs = [''/ip4/10.0.0.1/tcp/4001'']\<rparr>),
              (''/ip4/10.0.0.2/tcp/4001/p2p/QmB'',
                 \<lparr>ID = ''QmB'', Addrs = [''/ip4/10.0.0.2/tcp/4001'']\<rparr>),
              (''/ip6/::1/tcp/4001/p2p/QmA'',
                 \<lparr>ID = ''QmA'', Addrs = [''/ip6/::1/tcp/4001'']\<rparr>)] a of
               None \<Rightarrow> Inl ''invalid p2p multiaddr''
             | Some pi \<Rightarrow> Inr pi)\<rparr>"

definition sample_ipfs :: CoreAPI where
  "sample_ipfs =
     \<lparr>Swarm_Connect = (\<lambda>p. if ID p = ''QmB'' then Some ''dial backoff'' else None),
      path_New = (\<lambda>c. if c = ''QmZULk'' then ''/ipfs/QmZULk'' else c),
      Unixfs_Get =
        (\<lambda>p. if p = ''/ipfs/QmZULk'' then Inr (File ''hello'') else Inl ''invalid path''),
      Unixfs_Add = (\<lambda>n. Inr \<lparr>Cid = ''QmZULk''\<rparr>)\<rparr>"

definition sample_peers :: "string list" where
  "sample_peers =
     [''/ip4/10.0.0.1/tcp/4001/p2p/QmA'', ''/ip4/10.0.0.2/tcp/4001/p2p/QmB'',
      ''/ip6/::1/tcp/4001/p2p/QmA'']"

definition sample_infos :: "AddrInfo list" where
  "sample_infos =
     [\<lparr>ID = ''QmA'', Addrs = [''/ip4/10.0.0.1/tcp/4001'']\<rparr>,
      \<lparr>ID = ''QmB'', Addrs = [''/ip4/10.0.0.2/tcp/4001'']\<rparr>,
      \<lparr>ID = ''QmA'', Addrs = [''/ip6/::1/tcp/4001'']\<rparr>]"

text \<open>A disk that keeps each written tree under its path and refuses a path in use.\<close>

definition sample_WriteTo ::
  "Node \<Rightarrow> string \<Rightarrow> (string \<times> Node) list \<Rightarrow> error option \<times> (string \<times> Node) list" where
  "sample_WriteTo content path d =
     (case map_of d path of
        Some old \<Rightarrow> (Some ''file exists'', d)
      | None \<Rightarrow> (None, (path, content) # d))"

definition sample_cfg :: "string \<Rightarrow> Config" where
  "sample_cfg ident =
     \<lparr>Identity = ident,
      Experimental =
        \<lparr>FilestoreEnabled = False, UrlstoreEnabled = False, ShardingEnabled = False,
         Libp2pStreamMounting = False, P2pHttpProxy = False, StrategicProviding = False\<rparr>\<rparr>"

text \<open>A system without faults whose key generation yields the given identity.\<close>

definition sample_env :: "string \<Rightarrow> repo_env" where
  "sample_env ident =
     \<lparr>mkdir_fault = None, config_Init = (\<lambda>bits. Inr (sample_cfg ident)),
      fsrepo_Init_fault = None\<rparr>"

section \<open>Auxiliary notions\<close>

text \<open>
  The invariant of the map \<^verbatim>\<open>peerInfos\<close>: keys are distinct and every entry is stored under
  its own identity.
\<close>

definition keyed :: "(peer_ID \<times> AddrInfo) list \<Rightarrow> bool" where
  "keyed m \<longleftrightarrow> distinct (map fst m) \<and> (\<forall>k v. map_of m k = Some v \<longrightarrow> ID v = k)"

definition addrs_of :: "(peer_ID \<times> AddrInfo) list \<Rightarrow> peer_ID \<Rightarrow> Multiaddr list" where
  "addrs_of m k = (case map_of m k of None \<Rightarrow> [] | Some v \<Rightarrow> Addrs v)"

text \<open>The log lines that one dial leaves: none when it succeeds, one when it fails.\<close>

definition fail_log :: "CoreAPI \<Rightarrow> AddrInfo \<Rightarrow> string list" where
  "fail_log ipfs d = (case Swarm_Connect ipfs d of None \<Rightarrow> [] | Some e \<Rightarrow> [dial_msg d e])"

section \<open>The map of peers\<close>

lemma collect_peers_fail:
  "s \<in> set peers \<Longrightarrow> parse_addr L s = Inl e \<Longrightarrow> \<exists>e'. collect_peers L peers m = Inl e'"
  by (induction peers arbitrary: m) (auto split: sum.splits)

lemma collect_peers_ok:
  "map (parse_addr L) peers = map Inr piis \<Longrightarrow>
   collect_peers L peers m = Inr (foldl merge_peer m piis)"
  by (induction peers arbitrary: m piis) (auto split: sum.splits)

lemma keyed_Nil: "keyed []"
  by (simp add: keyed_def)

lemma keyed_merge: "keyed m \<Longrightarrow> keyed (merge_peer m p)"
  unfolding keyed_def merge_peer_def Let_def
  by (auto simp: distinct_update update_conv' split: option.splits)

lemma keys_merge: "fst ` set (merge_peer m p) = insert (ID p) (fst ` set m)"
  unfolding merge_peer_def Let_def by (simp add: dom_update)

lemma addrs_merge:
  "addrs_of (merge_peer m p) k = addrs_of m k @ (if ID p = k then Addrs p else [])"
  unfolding merge_peer_def Let_def addrs_of_def
  by (auto simp: update_conv' split: option.splits)

lemma keyed_foldl: "keyed m \<Longrightarrow> keyed (foldl merge_peer m ps)"
  by (induction ps arbitrary: m) (auto simp: keyed_merge)

lemma collect_peers_keyed:
  "collect_peers L peers m = Inr m' \<Longrightarrow> keyed m \<Longrightarrow> keyed m'"
  by (induction peers arbitrary: m) (auto simp: keyed_merge split: sum.splits)

lemma keys_foldl: "fst ` set (foldl merge_peer m ps) = fst ` set m \<union> ID ` set ps"
  by (induction ps arbitrary: m) (auto simp: keys_merge)

lemma addrs_foldl:
  "addrs_of (foldl merge_peer m ps) k =
   addrs_of m k @ concat (map Addrs (filter (\<lambda>p. ID p = k) ps))"
  by (induction ps arbitrary: m) (auto simp: addrs_merge)

lemma keyed_ID:
  assumes "keyed m"
  shows "map ID (map snd m) = map fst m"
proof -
  have d: "distinct (map fst m)" using assms by (simp add: keyed_def)
  have "ID (snd x) = fst x" if "x \<in> set m" for x
  proof -
    from that have "(fst x, snd x) \<in> set m" by simp
    with d have "map_of m (fst x) = Some (snd x)" by (simp only: map_of_eq_Some_iff)
    with assms show ?thesis unfolding keyed_def by blast
  qed
  then show ?thesis by simp
qed

lemma keyed_Addrs:
  assumes "keyed m" and "d \<in> set (map snd m)"
  shows "Addrs d = addrs_of m (ID d)"
proof -
  from assms(2) obtain k where "(k, d) \<in> set m" by auto
  moreover have "distinct (map fst m)" using assms(1) by (simp add: keyed_def)
  ultimately have look: "map_of m k = Some d" by simp
  with assms(1) have "ID d = k" unfolding keyed_def by blast
  with look show ?thesis by (simp add: addrs_of_def)
qed

lemma distinct_once:
  "distinct (map f xs) \<Longrightarrow> k \<in> f ` set xs \<Longrightarrow> length (filter (\<lambda>d. f d = k) xs) = 1"
proof (induction xs)
  case Nil
  then show ?case by simp
next
  case (Cons x xs)
  show ?case
  proof (cases "f x = k")
    case True
    have "f x \<notin> f ` set xs" using Cons.prems(1) by simp
    with True have "\<forall>d \<in> set xs. f d \<noteq> k" by blast
    then have "filter (\<lambda>d. f d = k) xs = []"
      by (simp add: filter_empty_conv)
    with True show ?thesis by simp
  next
    case False
    with Cons show ?thesis by auto
  qed
qed

section \<open>The dial loop\<close>

lemma dial_all_eq: "dial_all ipfs ps = (ps, concat (map (fail_log ipfs) ps))"
  by (induction ps) (auto simp: fail_log_def split: option.splits)

lemma connect_ok:
  assumes "map (parse_addr L) peers = map Inr piis"
  shows "connectToPeers L ipfs peers =
    \<lparr>returned = None, dialed = map snd (foldl merge_peer [] piis),
     logged = concat (map (fail_log ipfs) (map snd (foldl merge_peer [] piis)))\<rparr>"
  unfolding connectToPeers_def by (simp add: collect_peers_ok[OF assms] dial_all_eq)

lemma sample_parse: "map (parse_addr sample_lib) sample_peers = map Inr sample_infos"
  by (simp add: parse_addr_def sample_lib_def sample_peers_def sample_infos_def)

lemma sample_run:
  "connectToPeers sample_lib sample_ipfs sample_peers =
   \<lparr>returned = None,
    dialed = [\<lparr>ID = ''QmA'', Addrs = [''/ip4/10.0.0.1/tcp/4001'', ''/ip6/::1/tcp/4001'']\<rparr>,
              \<lparr>ID = ''QmB'', Addrs = [''/ip4/10.0.0.2/tcp/4001'']\<rparr>],
    logged = [''failed to connect to QmB: dial backoff'']\<rparr>"
  by (simp add: connectToPeers_def parse_addr_def merge_peer_def sample_lib_def
      sample_ipfs_def sample_peers_def dial_msg_def)

section \<open>Peer connector: the claims\<close>

text \<open>
  For a list whose address strings all parse: the identities of the dial attempts are
  pairwise distinct, every identity of the list has exactly one attempt, and an attempt
  carries the transport addresses of all strings of its identity, in the order of the list.
\<close>

lemma dedup_parsed:
  assumes "map (parse_addr L) peers = map Inr piis"
  shows "(\<forall>p \<in> set piis.
             length (filter (\<lambda>d. ID d = ID p) (dialed (connectToPeers L ipfs peers))) = 1) \<and>
         (\<forall>d \<in> set (dialed (connectToPeers L ipfs peers)).
             ID d \<in> ID ` set piis \<and>
             Addrs d = concat (map Addrs (filter (\<lambda>p. ID p = ID d) piis)))"
proof -
  let ?m = "foldl merge_peer [] piis"
  have k: "keyed ?m" by (rule keyed_foldl[OF keyed_Nil])
  have d: "dialed (connectToPeers L ipfs peers) = map snd ?m"
    by (simp add: connect_ok[OF assms])
  have ids: "map ID (map snd ?m) = map fst ?m" by (rule keyed_ID[OF k])
  have dist: "distinct (map ID (map snd ?m))"
    unfolding ids using k unfolding keyed_def by (rule conjunct1)
  have "set (map fst ?m) = ID ` set piis"
    using keys_foldl[of "[]" piis] by simp
  then have "set (map ID (map snd ?m)) = ID ` set piis"
    by (simp only: ids)
  then have keys: "ID ` set (map snd ?m) = ID ` set piis"
    by (simp only: set_map)
  have once: "length (filter (\<lambda>d. ID d = ID p) (map snd ?m)) = 1" if "p \<in> set piis" for p
  proof -
    have "ID p \<in> ID ` set (map snd ?m)" using that keys by blast
    then show ?thesis by (rule distinct_once[OF dist])
  qed
  have addrs: "Addrs x = concat (map Addrs (filter (\<lambda>p. ID p = ID x) piis))"
    if "x \<in> set (map snd ?m)" for x
    using keyed_Addrs[OF k that] addrs_foldl[of "[]" piis "ID x"] by (simp add: addrs_of_def)
  have mem: "ID x \<in> ID ` set piis" if "x \<in> set (map snd ?m)" for x
    using that keys by blast
  show ?thesis unfolding d
  proof (intro conjI ballI)
    fix p assume "p \<in> set piis"
    then show "length (filter (\<lambda>d. ID d = ID p) (map snd ?m)) = 1" by (rule once)
  next
    fix x assume "x \<in> set (map snd ?m)"
    then show "ID x \<in> ID ` set piis" by (rule mem)
  next
    fix x assume "x \<in> set (map snd ?m)"
    then show "Addrs x = concat (map Addrs (filter (\<lambda>p. ID p = ID x) piis))" by (rule addrs)
  qed
qed

text \<open>For any list at all, no identity has two dial attempts.\<close>

lemma dialed_distinct: "distinct (map ID (dialed (connectToPeers L ipfs peers)))"
proof (cases "collect_peers L peers []")
  case (Inl e)
  then show ?thesis by (simp add: connectToPeers_def)
next
  case (Inr m)
  then have k: "keyed m" using collect_peers_keyed keyed_Nil by blast
  have "dialed (connectToPeers L ipfs peers) = map snd m"
    using Inr by (simp add: connectToPeers_def dial_all_eq)
  moreover have "distinct (map ID (map snd m))"
    unfolding keyed_ID[OF k] using k unfolding keyed_def by (rule conjunct1)
  ultimately show ?thesis by simp
qed

text \<open>
  C1. For every address list, no identity appears twice among the dial attempts. When the
  address strings of the list all parse, every peer identity that occurs in the list is
  dialed exactly once, however many address strings carry it, and the attempt for an
  identity is given the transport addresses of all address strings of that identity; every
  attempt is for an identity of the list. (A list with a string that does not parse is
  the subject of C2: nothing is dialed.)
\<close>

theorem connectToPeers_dedup:
  "distinct (map ID (dialed (connectToPeers L ipfs peers))) \<and>
   (map (parse_addr L) peers = map Inr piis \<longrightarrow>
      (\<forall>p \<in> set piis.
          length (filter (\<lambda>d. ID d = ID p) (dialed (connectToPeers L ipfs peers))) = 1) \<and>
      (\<forall>d \<in> set (dialed (connectToPeers L ipfs peers)).
          ID d \<in> ID ` set piis \<and>
          Addrs d = concat (map Addrs (filter (\<lambda>p. ID p = ID d) piis))))"
  using dialed_distinct dedup_parsed by blast

text \<open>
  The sample list names the peer \<open>QmA\<close> twice, with two transports, and \<open>QmB\<close> once.
\<close>

theorem connectToPeers_dedup_witness:
  "map (parse_addr sample_lib) sample_peers = map Inr sample_infos \<and>
   distinct (map ID (dialed (connectToPeers sample_lib sample_ipfs sample_peers))) \<and>
   length (filter (\<lambda>d. ID d = ''QmA'')
     (dialed (connectToPeers sample_lib sample_ipfs sample_peers))) = 1 \<and>
   length (filter (\<lambda>d. ID d = ''QmB'')
     (dialed (connectToPeers sample_lib sample_ipfs sample_peers))) = 1 \<and>
   dialed (connectToPeers sample_lib sample_ipfs sample_peers) =
     [\<lparr>ID = ''QmA'', Addrs = [''/ip4/10.0.0.1/tcp/4001'', ''/ip6/::1/tcp/4001'']\<rparr>,
      \<lparr>ID = ''QmB'', Addrs = [''/ip4/10.0.0.2/tcp/4001'']\<rparr>]"
proof -
  let ?ds = "dialed (connectToPeers sample_lib sample_ipfs sample_peers)"
  note t = connectToPeers_dedup[of sample_lib sample_ipfs sample_peers sample_infos]
  from t have d: "distinct (map ID ?ds)"
    by (rule conjunct1)
  from t have "map (parse_addr sample_lib) sample_peers = map Inr sample_infos \<longrightarrow>
      (\<forall>p \<in> set sample_infos. length (filter (\<lambda>d. ID d = ID p) ?ds) = 1) \<and>
      (\<forall>d \<in> set ?ds.
          ID d \<in> ID ` set sample_infos \<and>
          Addrs d = concat (map Addrs (filter (\<lambda>p. ID p = ID d) sample_infos)))"
    by (rule conjunct2)
  then have "(\<forall>p \<in> set sample_infos. length (filter (\<lambda>d. ID d = ID p) ?ds) = 1) \<and>
      (\<forall>d \<in> set ?ds.
          ID d \<in> ID ` set sample_infos \<and>
          Addrs d = concat (map Addrs (filter (\<lambda>p. ID p = ID d) sample_infos)))"
    using sample_parse by (rule mp)
  then have once: "\<forall>p \<in> set sample_infos. length (filter (\<lambda>d. ID d = ID p) ?ds) = 1"
    by (rule conjunct1)
  have "\<lparr>ID = ''QmA'', Addrs = [''/ip4/10.0.0.1/tcp/4001'']\<rparr> \<in> set sample_infos"
    by (simp add: sample_infos_def)
  from bspec[OF once this] have a: "length (filter (\<lambda>d. ID d = ''QmA'') ?ds) = 1"
    by simp
  have "\<lparr>ID = ''QmB'', Addrs = [''/ip4/10.0.0.2/tcp/4001'']\<rparr> \<in> set sample_infos"
    by (simp add: sample_infos_def)
  from bspec[OF once this] have b: "length (filter (\<lambda>d. ID d = ''QmB'') ?ds) = 1"
    by simp
  have r: "?ds =
     [\<lparr>ID = ''QmA'', Addrs = [''/ip4/10.0.0.1/tcp/4001'', ''/ip6/::1/tcp/4001'']\<rparr>,
      \<lparr>ID = ''QmB'', Addrs = [''/ip4/10.0.0.2/tcp/4001'']\<rparr>]"
    by (simp add: sample_run)
  show ?thesis by (rule conjI[OF sample_parse conjI[OF d conjI[OF a conjI[OF b r]]]])
qed

text \<open>
  C2. When some address string of the list fails to parse, the call returns an error and
  no dial is attempted and nothing is logged, whatever precedes or follows that string.
\<close>

theorem connectToPeers_fail_fast:
  assumes "s \<in> set peers" and "parse_addr L s = Inl e"
  shows "returned (connectToPeers L ipfs peers) \<noteq> None \<and>
         dialed (connectToPeers L ipfs peers) = [] \<and>
         logged (connectToPeers L ipfs peers) = []"
proof -
  obtain e' where "collect_peers L peers [] = Inl e'"
    using collect_peers_fail[OF assms] by blast
  then show ?thesis by (simp add: connectToPeers_def)
qed

text \<open>The malformed string comes last here, after three well-formed ones.\<close>

theorem connectToPeers_fail_fast_witness:
  "''ip4/10.0.0.3'' \<in> set (sample_peers @ [''ip4/10.0.0.3'']) \<and>
   parse_addr sample_lib ''ip4/10.0.0.3'' = Inl ''failed to parse multiaddr'' \<and>
   returned (connectToPeers sample_lib sample_ipfs (sample_peers @ [''ip4/10.0.0.3''])) \<noteq> None \<and>
   dialed (connectToPeers sample_lib sample_ipfs (sample_peers @ [''ip4/10.0.0.3''])) = [] \<and>
   logged (connectToPeers sample_lib sample_ipfs (sample_peers @ [''ip4/10.0.0.3''])) = []"
proof -
  have h1: "''ip4/10.0.0.3'' \<in> set (sample_peers @ [''ip4/10.0.0.3''])" by simp
  have h2: "parse_addr sample_lib ''ip4/10.0.0.3'' = Inl ''failed to parse multiaddr''"
    by (simp add: parse_addr_def sample_lib_def)
  show ?thesis
    using h1 h2 connectToPeers_fail_fast[OF h1 h2, of sample_ipfs] by blast
qed

text \<open>
  C3. When every address string parses, the call returns nil whatever the dials answer:
  every identity of the list is dialed, the dial attempts are the same for any other
  behaviour of the network, and the only trace of a failed dial is its log line.
\<close>

theorem connectToPeers_partial_failure:
  assumes "map (parse_addr L) peers = map Inr piis"
  shows "returned (connectToPeers L ipfs peers) = None \<and>
         (\<forall>p \<in> set piis. \<exists>d \<in> set (dialed (connectToPeers L ipfs peers)). ID d = ID p) \<and>
         dialed (connectToPeers L ipfs peers) = dialed (connectToPeers L ipfs' peers) \<and>
         logged (connectToPeers L ipfs peers) =
           concat (map (fail_log ipfs) (dialed (connectToPeers L ipfs peers)))"
proof -
  let ?m = "foldl merge_peer [] piis"
  have k: "keyed ?m" by (rule keyed_foldl[OF keyed_Nil])
  have "set (map ID (map snd ?m)) = ID ` set piis"
    unfolding keyed_ID[OF k] using keys_foldl[of "[]" piis] by simp
  then have "\<forall>p \<in> set piis. \<exists>d \<in> set (map snd ?m). ID d = ID p"
    by (metis (no_types, lifting) image_iff list.set_map)
  then show ?thesis by (simp add: connect_ok[OF assms])
qed

text \<open>
  In the sample network the dial of \<open>QmB\<close> fails and that of \<open>QmA\<close> succeeds; the
  other network refuses every dial.
\<close>

theorem connectToPeers_partial_failure_witness:
  "map (parse_addr sample_lib) sample_peers = map Inr sample_infos \<and>
   returned (connectToPeers sample_lib sample_ipfs sample_peers) = None \<and>
   dialed (connectToPeers sample_lib sample_ipfs sample_peers) =
     dialed (connectToPeers sample_lib
       (sample_ipfs\<lparr>Swarm_Connect := (\<lambda>p. Some ''no route'')\<rparr>) sample_peers) \<and>
   logged (connectToPeers sample_lib sample_ipfs sample_peers) =
     concat (map (fail_log sample_ipfs)
       (dialed (connectToPeers sample_lib sample_ipfs sample_peers))) \<and>
   logged (connectToPeers sample_lib sample_ipfs sample_peers) =
     [''failed to connect to QmB: dial backoff'']"
proof -
  note t = connectToPeers_partial_failure[OF sample_parse, of sample_ipfs
      "sample_ipfs\<lparr>Swarm_Connect := (\<lambda>p. Some ''no route'')\<rparr>"]
  from t have a: "returned (connectToPeers sample_lib sample_ipfs sample_peers) = None"
    by (rule conjunct1)
  from t have b: "dialed (connectToPeers sample_lib sample_ipfs sample_peers) =
     dialed (connectToPeers sample_lib
       (sample_ipfs\<lparr>Swarm_Connect := (\<lambda>p. Some ''no route'')\<rparr>) sample_peers)"
    by (rule conjunct1[OF conjunct2[OF conjunct2]])
  from t have c: "logged (connectToPeers sample_lib sample_ipfs sample_peers) =
     concat (map (fail_log sample_ipfs)
       (dialed (connectToPeers sample_lib sample_ipfs sample_peers)))"
    by (rule conjunct2[OF conjunct2[OF conjunct2]])
  have r: "logged (connectToPeers sample_lib sample_ipfs sample_peers) =
     [''failed to connect to QmB: dial backoff'']"
    by (simp add: sample_run)
  show ?thesis by (rule conjI[OF sample_parse conjI[OF a conjI[OF b conjI[OF c r]]]])
qed

section \<open>Repository manager: the claims\<close>

text \<open>
  C5. The location is absent and \<^verbatim>\<open>os.Mkdir\<close> fails for want of permission. The claim asks
  for an error; \<^verbatim>\<open>createRepo\<close> prints that the repository already exists and returns the
  path with a nil error, leaving the location absent.
\<close>

theorem createRepo_mkdir_fault_swallowed:
  "createRepo ((sample_env ''QmSelf'')\<lparr>mkdir_fault := Some EACCES\<rparr>) False Absent =
   \<lparr>ret_path = ''/tmp/embedded-ipfs'', ret_err = None,
    calls = [Mkdir ''/tmp/embedded-ipfs'' 511, Print ''repo already exists\<newline>''],
    disk = Absent\<rparr>"
  by (simp add: createRepo_def Let_def os_Mkdir_def sample_env_def)

text \<open>
  C6. Once the location exists after a first call, a second call, whatever its
  environment and its flag, only attempts the directory creation and prints: it calls
  neither \<^verbatim>\<open>config.Init\<close> nor \<^verbatim>\<open>fsrepo.Init\<close>, returns the path with a nil error and leaves
  the location as the first call left it.
\<close>

theorem createRepo_idempotent:
  assumes "disk (createRepo E1 flag1 d) = Dir c"
  shows "createRepo E2 flag2 (disk (createRepo E1 flag1 d)) =
         \<lparr>ret_path = ''/tmp/embedded-ipfs'', ret_err = None,
          calls = [Mkdir ''/tmp/embedded-ipfs'' 511, Print ''repo already exists\<newline>''],
          disk = Dir c\<rparr>"
  unfolding assms by (simp add: createRepo_def Let_def os_Mkdir_def)

text \<open>
  The first call initialises an absent location with the identity \<open>QmSelf\<close>; the second
  call runs with the flag set in a system that would generate the identity \<open>QmOther\<close>.
\<close>

theorem createRepo_idempotent_witness:
  "disk (createRepo (sample_env ''QmSelf'') False Absent) = Dir (Some (sample_cfg ''QmSelf'')) \<and>
   createRepo (sample_env ''QmOther'') True
     (disk (createRepo (sample_env ''QmSelf'') False Absent)) =
   \<lparr>ret_path = ''/tmp/embedded-ipfs'', ret_err = None,
    calls = [Mkdir ''/tmp/embedded-ipfs'' 511, Print ''repo already exists\<newline>''],
    disk = Dir (Some (sample_cfg ''QmSelf''))\<rparr>"
proof -
  have h: "disk (createRepo (sample_env ''QmSelf'') False Absent) =
           Dir (Some (sample_cfg ''QmSelf''))"
    by (simp add: createRepo_def Let_def os_Mkdir_def fsrepo_Init_def sample_env_def)
  show ?thesis
    using h createRepo_idempotent[OF h, of "sample_env ''QmOther''" True] by simp
qed

text \<open>
  C7, as stated, fails. The only switch is the flag \<^verbatim>\<open>experimental\<close>: without it the
  configuration on disk has the file store and the URL store off, with it both are on,
  and so are the other four. No run of \<^verbatim>\<open>createRepo\<close> turns one of them on and leaves
  another off.
\<close>

theorem createRepo_toggles_coupled:
  "disk (createRepo (sample_env ''QmSelf'') False Absent) =
     Dir (Some \<lparr>Identity = ''QmSelf'', Experimental =
       \<lparr>FilestoreEnabled = False, UrlstoreEnabled = False, ShardingEnabled = False,
        Libp2pStreamMounting = False, P2pHttpProxy = False, StrategicProviding = False\<rparr>\<rparr>) \<and>
   disk (createRepo (sample_env ''QmSelf'') True Absent) =
     Dir (Some \<lparr>Identity = ''QmSelf'', Experimental =
       \<lparr>FilestoreEnabled = True, UrlstoreEnabled = True, ShardingEnabled = True,
        Libp2pStreamMounting = True, P2pHttpProxy = True, StrategicProviding = True\<rparr>\<rparr>)"
  by (simp add: createRepo_def Let_def os_Mkdir_def fsrepo_Init_def sample_env_def sample_cfg_def)

text \<open>
  C7, amended. When the location is absent and nothing fails, the configuration written
  is the one \<^verbatim>\<open>config.Init\<close> generated, with its six switches untouched if the flag is
  unset and all six set to true if the flag is set; the call returns the path and no
  error.
\<close>

theorem createRepo_experimental:
  assumes "mkdir_fault E = None"
    and "config_Init E 2048 = Inr cfg0"
    and "fsrepo_Init_fault E = None"
  shows "disk (createRepo E flagExp Absent) =
           Dir (Some (cfg0\<lparr>Experimental :=
             (if flagExp
              then \<lparr>FilestoreEnabled = True, UrlstoreEnabled = True, ShardingEnabled = True,
                    Libp2pStreamMounting = True, P2pHttpProxy = True,
                    StrategicProviding = True\<rparr>
              else Experimental cfg0)\<rparr>)) \<and>
         ret_path (createRepo E flagExp Absent) = ''/tmp/embedded-ipfs'' \<and>
         ret_err (createRepo E flagExp Absent) = None"
  using assms by (simp add: createRepo_def Let_def os_Mkdir_def fsrepo_Init_def)

theorem createRepo_experimental_witness:
  "mkdir_fault (sample_env ''QmSelf'') = None \<and>
   config_Init (sample_env ''QmSelf'') 2048 = Inr (sample_cfg ''QmSelf'') \<and>
   fsrepo_Init_fault (sample_env ''QmSelf'') = None \<and>
   disk (createRepo (sample_env ''QmSelf'') True Absent) =
     Dir (Some ((sample_cfg ''QmSelf'')\<lparr>Experimental :=
       \<lparr>FilestoreEnabled = True, UrlstoreEnabled = True, ShardingEnabled = True,
        Libp2pStreamMounting = True, P2pHttpProxy = True, StrategicProviding = True\<rparr>\<rparr>)) \<and>
   ret_path (createRepo (sample_env ''QmSelf'') True Absent) = ''/tmp/embedded-ipfs'' \<and>
   ret_err (createRepo (sample_env ''QmSelf'') True Absent) = None"
proof -
  have h1: "mkdir_fault (sample_env ''QmSelf'') = None" by (simp add: sample_env_def)
  have h2: "config_Init (sample_env ''QmSelf'') 2048 = Inr (sample_cfg ''QmSelf'')"
    by (simp add: sample_env_def)
  have h3: "fsrepo_Init_fault (sample_env ''QmSelf'') = None" by (simp add: sample_env_def)
  show ?thesis
    using h1 h2 h3 createRepo_experimental[OF h1 h2 h3, of True] by simp
qed

section \<open>Content resolver and persistence writer: the claims\<close>

text \<open>
  C8, as stated, fails. The sample node answers \<^verbatim>\<open>Unixfs().Get\<close> for the text
  \<open>not-a-valid-cid\<close> with an error, and \<^verbatim>\<open>get\<close> panics with it: no error value reaches
  the caller.
\<close>

theorem get_malformed_panics:
  "get sample_ipfs ''not-a-valid-cid'' =
   Panicked ''could not get contents of CID: invalid path''"
  by (simp add: get_def sample_ipfs_def)

text \<open>
  C8, amended. Whenever \<^verbatim>\<open>Unixfs().Get\<close> answers the path built from the CID text with an
  error, as it does for a malformed CID, \<^verbatim>\<open>get\<close> panics with that error behind the prefix
  of line 327.
\<close>

theorem get_error_panics:
  assumes "Unixfs_Get ipfs (path_New ipfs cid) = Inl e"
  shows "get ipfs cid = Panicked (''could not get contents of CID: '' @ e)"
  using assms by (simp add: get_def)

theorem get_error_panics_witness:
  "Unixfs_Get sample_ipfs (path_New sample_ipfs ''QmNotInStore'') = Inl ''invalid path'' \<and>
   get sample_ipfs ''QmNotInStore'' =
     Panicked (''could not get contents of CID: '' @ ''invalid path'')"
proof -
  have h: "Unixfs_Get sample_ipfs (path_New sample_ipfs ''QmNotInStore'') = Inl ''invalid path''"
    by (simp add: sample_ipfs_def)
  show ?thesis using h get_error_panics[OF h] by blast
qed

text \<open>
  C9. The path is the destination directory followed by the name, character by character;
  \<^verbatim>\<open>files.WriteTo\<close> is called once, with the content and that path, and the disk after
  \<^verbatim>\<open>save\<close> is the disk it left. When it reports no error, \<^verbatim>\<open>save\<close> returns that path.
\<close>

theorem save_path:
  assumes "files_WriteTo content (dir @ cid) d = (None, d')"
  shows "save files_WriteTo dir content cid d = (Returned (dir @ cid), d')"
  using assms by (simp add: save_def)

text \<open>
  The destination has no trailing separator here, and none is inserted.
\<close>

theorem save_path_witness:
  "sample_WriteTo (File ''hello'') (''/tmp/out'' @ ''QmZULk'') [] =
     (None, [(''/tmp/outQmZULk'', File ''hello'')]) \<and>
   save sample_WriteTo ''/tmp/out'' (File ''hello'') ''QmZULk'' [] =
     (Returned ''/tmp/outQmZULk'', [(''/tmp/outQmZULk'', File ''hello'')])"
proof -
  have h: "sample_WriteTo (File ''hello'') (''/tmp/out'' @ ''QmZULk'') [] =
           (None, [(''/tmp/outQmZULk'', File ''hello'')])"
    by (simp add: sample_WriteTo_def)
  show ?thesis
    using h save_path[of sample_WriteTo "File ''hello''" "''/tmp/out''" "''QmZULk''" "[]", OF h]
    by simp
qed

text \<open>
  C10. The peer connector called by \<^verbatim>\<open>fetch\<close> gets the empty list: it dials no peer,
  logs nothing and returns no error, for every address library, node and CID.
\<close>

theorem fetch_dials_nothing:
  "bg_dialed (fetch L ipfs cid) = [] \<and>
   bg_logged (fetch L ipfs cid) = [] \<and>
   connectToPeers L ipfs [] = \<lparr>returned = None, dialed = [], logged = []\<rparr>"
  by (simp add: fetch_def connectToPeers_def)

end
